theory Spec2Isabelle
  imports Complex_Main
begin

section \<open>JavaScript strings and values\<close>

text \<open>
  Text is a list of characters. The string built-ins the components call are written
  out on lists: \<open>String.prototype.includes\<close>, \<open>replace\<close> with a string pattern, and
  \<open>toLowerCase\<close> on the letters A to Z (every other character is kept).
\<close>

definition toLowerCase_char :: "char \<Rightarrow> char" where
  "toLowerCase_char c =
     (if (65::nat) \<le> of_char c \<and> of_char c \<le> (90::nat)
      then char_of (of_char c + (32::nat)) else c)"

definition toLowerCase :: "string \<Rightarrow> string" where
  "toLowerCase s = map toLowerCase_char s"

fun startsWith :: "'a list \<Rightarrow> 'a list \<Rightarrow> bool" where
  "startsWith s [] = True"
| "startsWith [] (p # ps) = False"
| "startsWith (c # cs) (p # ps) = (c = p \<and> startsWith cs ps)"

fun string_includes :: "'a list \<Rightarrow> 'a list \<Rightarrow> bool" where
  "string_includes [] needle = (needle = [])"
| "string_includes (c # cs) needle = (startsWith (c # cs) needle \<or> string_includes cs needle)"

text \<open>
  Speech that is recognised and summarised may be in any script, and
  \<open>String.prototype.trim\<close> goes by code points beyond the Latin ones. Such text is the list
  of its UTF-16 code units; \<open>units_of\<close> gives the units of a literal. \<open>trim\<close> strips,
  at both ends, the white space and line terminators of ECMAScript: TAB, LF, VT, FF, CR,
  SP, NBSP (160), U+1680, U+2000 to U+200A, U+2028, U+2029, U+202F, U+205F, U+3000 and
  U+FEFF.
\<close>

type_synonym utf16 = "nat list"

definition units_of :: "string \<Rightarrow> utf16" where
  "units_of s = map of_char s"

definition isWhiteSpace :: "nat \<Rightarrow> bool" where
  "isWhiteSpace c =
     (c \<in> {9, 10, 11, 12, 13, 32, 160, 5760, 8232, 8233, 8239, 8287, 12288, 65279}
      \<or> (8192 \<le> c \<and> c \<le> 8202))"

definition trim :: "utf16 \<Rightarrow> utf16" where
  "trim s = rev (dropWhile isWhiteSpace (rev (dropWhile isWhiteSpace s)))"

text \<open>\<open>s.replace(pattern, '')\<close> with a string pattern: the first occurrence is removed.\<close>

fun replace_first :: "'a list \<Rightarrow> 'a list \<Rightarrow> 'a list" where
  "replace_first [] pat = []"
| "replace_first (c # cs) pat =
     (if startsWith (c # cs) pat then drop (length pat) (c # cs)
      else c # replace_first cs pat)"

text \<open>Truthiness of a string that may be null or undefined.\<close>

fun truthy :: "'a list option \<Rightarrow> bool" where
  "truthy None = False"
| "truthy (Some s) = (s \<noteq> [])"

text \<open>\<open>a || b\<close> on such strings.\<close>

definition or_else :: "string option \<Rightarrow> string \<Rightarrow> string" where
  "or_else a b = (case a of Some s \<Rightarrow> (if s \<noteq> [] then s else b) | None \<Rightarrow> b)"

record blob =
  blob_type :: string
  blob_bytes :: "nat list"

definition blob_size :: "blob \<Rightarrow> nat" where
  "blob_size b = length (blob_bytes b)"

section \<open>services/transcription.js: the requests of the translation services\<close>

datatype form_value =
    Text string
  | TextUnits utf16
  | Null
  | FilePart blob
  | DataURL blob

record request =
  url :: string
  payload :: "(string \<times> form_value) list"

datatype media = MediaBlob blob | MediaString string

text \<open>
  \<open>signToSpeechFromBase64\<close> appends the image data and the provider to a form;
  \<open>signToSpeechFromVideo\<close> first reads the blob as a data URL, which throws a TypeError
  (no request is made) when the media is not a blob.
\<close>

fun signToSpeechFromBase64 :: "media \<Rightarrow> string \<Rightarrow> request" where
  "signToSpeechFromBase64 (MediaString imageBase64) p =
     \<lparr>url = ''/api/sign-to-speech'',
      payload = [(''image_data'', Text imageBase64), (''provider'', Text p)]\<rparr>"
| "signToSpeechFromBase64 (MediaBlob b) p =
     \<lparr>url = ''/api/sign-to-speech'',
      payload = [(''image_data'', FilePart b), (''provider'', Text p)]\<rparr>"

fun signToSpeechFromVideo :: "media \<Rightarrow> string \<Rightarrow> request option" where
  "signToSpeechFromVideo (MediaBlob videoBlob) p =
     Some \<lparr>url = ''/api/sign-to-speech'',
           payload = [(''video_data'', DataURL videoBlob), (''provider'', Text p)]\<rparr>"
| "signToSpeechFromVideo (MediaString s) p = None"

definition textToGloss :: "utf16 \<Rightarrow> string \<Rightarrow> request" where
  "textToGloss txt p =
     \<lparr>url = ''/api/text-to-gloss'',
      payload = [(''text'', TextUnits txt), (''provider'', Text p)]\<rparr>"

definition transcriptionChunkSummary :: "utf16 \<Rightarrow> string \<Rightarrow> utf16 option \<Rightarrow> request" where
  "transcriptionChunkSummary transcriptionText p previousContext =
     \<lparr>url = ''/api/transcription-chunk-summary'',
      payload = [(''transcription'', TextUnits transcriptionText), (''provider'', Text p),
                 (''previous_context'',
                  (case previousContext of None \<Rightarrow> Null | Some c \<Rightarrow> TextUnits c))]\<rparr>"

text \<open>A failed call: the error axios rejects with, whose response may carry a detail.\<close>

record api_error =
  detail :: "string option"

record sign_result =
  translation :: "string option"
  audio_base64 :: "string option"

record summary_result =
  summary :: "utf16 option"

section \<open>components/Dashboard/SignToSpeech.jsx\<close>

record api_key =
  key_provider :: string
  is_active :: bool

datatype recorder_state = Inactive | Recording | Paused

record recorder_options =
  mimeType :: "string option"
  videoBitsPerSecond :: "nat option"

record media_recorder =
  rec_state :: recorder_state
  rec_options :: recorder_options

text \<open>
  The component's state: the \<open>useState\<close> values, then the refs. A handler is a closure
  of the render that created it: the props and state values it reads (the API keys and
  the provider) are those of that render, and are its arguments here; the setters and
  the refs act on the state as it is when the handler runs.
\<close>

record sts_state =
  isCapturing :: bool
  isRecording :: bool
  recordingTime :: rat
  translation_text :: "string option"
  loading :: bool
  error :: string
  audioUrl :: string
  videoBlob :: "blob option"
  provider :: string
  inputType :: string
  isEmergency :: bool
  mediaStreamRef :: bool
  mediaRecorderRef :: "media_recorder option"
  recordingTimerRef :: bool
  videoChunksRef :: "blob list"

text \<open>What a handler does besides updating the state, in the order it does it.\<close>

datatype effect =
    Request request
  | SetTimeout_setIsEmergency nat bool
  | AudioPlay string
  | SpeechSynthesisSpeak string

text \<open>
  The browser and the backend as the handler sees them: the backend's answer to a
  request, \<open>atob\<close> (\<open>None\<close> when it throws on data that is not base64) and
  \<open>URL.createObjectURL\<close>.
\<close>

record sts_env =
  backend :: "request \<Rightarrow> api_error + sign_result"
  atob :: "string \<Rightarrow> nat list option"
  createObjectURL :: "blob \<Rightarrow> string"

definition hasAPIKey :: "api_key list \<Rightarrow> string \<Rightarrow> bool" where
  "hasAPIKey apiKeys p = list_ex (\<lambda>k. key_provider k = p \<and> is_active k) apiKeys"

definition isEmergencyDetected :: "sign_result \<Rightarrow> bool" where
  "isEmergencyDetected result =
     (case translation result of
        None \<Rightarrow> False
      | Some t \<Rightarrow> t \<noteq> [] \<and> string_includes (toLowerCase t) ''this is an emergency'')"

text \<open>The \<open>try\<close> block up to the awaited service call: the request made, and its outcome.\<close>

definition callService :: "sts_env \<Rightarrow> media \<Rightarrow> string \<Rightarrow> string \<Rightarrow> request list \<times> (api_error + sign_result)" where
  "callService env m mediaType p =
     (if mediaType = ''video'' then
        (case signToSpeechFromVideo m p of
           None \<Rightarrow> ([], Inl \<lparr>detail = None\<rparr>)
         | Some r \<Rightarrow> ([r], backend env r))
      else if mediaType = ''image'' then
        ([signToSpeechFromBase64 m p], backend env (signToSpeechFromBase64 m p))
      else ([], Inl \<lparr>detail = None\<rparr>))"

text \<open>The rest of the \<open>try\<close> block, on a result.\<close>

definition onResult :: "sts_env \<Rightarrow> sign_result \<Rightarrow> sts_state \<Rightarrow> sts_state \<times> effect list" where
  "onResult env result s1 =
     (let s2 = s1\<lparr>translation_text := translation result\<rparr>;
          (s3, blink) =
            (if isEmergencyDetected result
             then (s2\<lparr>isEmergency := True\<rparr>,
                   [SetTimeout_setIsEmergency 200 False,
                    SetTimeout_setIsEmergency 400 True,
                    SetTimeout_setIsEmergency 600 False])
             else (s2, []))
      in if truthy (audio_base64 result) then
           (case atob env (the (audio_base64 result)) of
              None \<Rightarrow> (s3\<lparr>error := ''Failed to analyze sign.''\<rparr>, blink)
            | Some audioBytes \<Rightarrow>
                (let u = createObjectURL env \<lparr>blob_type = ''audio/mpeg'', blob_bytes = audioBytes\<rparr>
                 in (s3\<lparr>audioUrl := u\<rparr>, blink @ [AudioPlay u])))
         else if truthy (translation result) then
           (s3, blink @ [SpeechSynthesisSpeak (the (translation result))])
         else (s3, blink))"

text \<open>
  \<open>sendToAPI\<close> of the render with the keys \<open>apiKeys\<close> and the provider \<open>p\<close>. The recorder's
  \<open>onstop\<close> handler and the upload handler call the \<open>sendToAPI\<close> of the render in which the
  recording or the upload began.
\<close>

definition sendToAPI ::
  "sts_env \<Rightarrow> api_key list \<Rightarrow> string \<Rightarrow> media \<Rightarrow> string \<Rightarrow> sts_state \<Rightarrow> sts_state \<times> effect list" where
  "sendToAPI env apiKeys p m mediaType s =
     (if \<not> hasAPIKey apiKeys p then
        (s\<lparr>error := ''Please configure your '' @ p @ '' API key in Settings.''\<rparr>, [])
      else if mediaType = ''video'' \<and> p = ''openai'' then
        (s\<lparr>error := ''Video input requires Gemini provider. Please select Gemini Pro or Gemini Flash.''\<rparr>, [])
      else
        (let s1 = s\<lparr>loading := True, error := [], translation_text := Some [], audioUrl := []\<rparr>;
             (reqs, outcome) = callService env m mediaType p;
             (s2, effs) =
               (case outcome of
                  Inl err \<Rightarrow> (s1\<lparr>error := or_else (detail err) ''Failed to analyze sign.''\<rparr>, [])
                | Inr result \<Rightarrow> onResult env result s1)
         in (s2\<lparr>loading := False\<rparr>, map Request reqs @ effs)))"

definition requests_of :: "effect list \<Rightarrow> request list" where
  "requests_of effs = concat (map (\<lambda>e. case e of Request r \<Rightarrow> [r] | _ \<Rightarrow> []) effs)"

text \<open>
  The effect on \<open>[isEmergency]\<close>. The body's children are listed by id. While isEmergency
  is true a \<open>div\<close> with id \<open>emergency-overlay\<close> is appended to the body; the clean-up the
  effect returns then removes the first element of that id. When isEmergency changes,
  the clean-up of the previous run (if it returned one) runs before the effect.
\<close>

definition emergencyOverlay_effect :: "bool \<Rightarrow> string list \<Rightarrow> string list" where
  "emergencyOverlay_effect isEmergency_now bodyChildren =
     (if isEmergency_now then bodyChildren @ [''emergency-overlay''] else bodyChildren)"

definition emergencyOverlay_cleanup :: "string list \<Rightarrow> string list" where
  "emergencyOverlay_cleanup bodyChildren = remove1 ''emergency-overlay'' bodyChildren"

definition commit_isEmergency :: "bool \<Rightarrow> bool \<Rightarrow> string list \<Rightarrow> string list" where
  "commit_isEmergency before now bodyChildren =
     (if before = now then bodyChildren
      else emergencyOverlay_effect now
             (if before then emergencyOverlay_cleanup bodyChildren else bodyChildren))"

text \<open>The provider select's \<open>onChange\<close>: openai takes no video, so the input type follows.\<close>

definition selectProvider :: "string \<Rightarrow> sts_state \<Rightarrow> sts_state" where
  "selectProvider newProvider s =
     (if newProvider = ''openai'' \<and> inputType s = ''video''
      then s\<lparr>provider := newProvider, inputType := ''image'', videoBlob := None\<rparr>
      else s\<lparr>provider := newProvider\<rparr>)"

text \<open>The values \<open>useState\<close> and \<open>useRef\<close> start with.\<close>

definition SignToSpeech_init :: sts_state where
  "SignToSpeech_init =
     \<lparr>isCapturing = False, isRecording = False, recordingTime = 0, translation_text = Some [],
      loading = False, error = [], audioUrl = [], videoBlob = None, provider = ''gemini-pro'',
      inputType = ''video'', isEmergency = False, mediaStreamRef = False,
      mediaRecorderRef = None, recordingTimerRef = False, videoChunksRef = []\<rparr>"

subsection \<open>Recording\<close>

definition MAX_RECORDING_DURATION :: rat where
  "MAX_RECORDING_DURATION = 5"

definition codecOptions :: "recorder_options list" where
  "codecOptions =
     [\<lparr>mimeType = Some ''video/webm;codecs=vp9'', videoBitsPerSecond = Some 250000\<rparr>,
      \<lparr>mimeType = Some ''video/webm;codecs=vp8'', videoBitsPerSecond = Some 250000\<rparr>,
      \<lparr>mimeType = Some ''video/webm'', videoBitsPerSecond = Some 250000\<rparr>,
      \<lparr>mimeType = None, videoBitsPerSecond = None\<rparr>]"

text \<open>The loop over the codec options: the first one without a type, or of a supported type.\<close>

fun chooseCodec :: "(string \<Rightarrow> bool) \<Rightarrow> recorder_options list \<Rightarrow> recorder_options option" where
  "chooseCodec isTypeSupported [] = None"
| "chooseCodec isTypeSupported (options # rest) =
     (if \<not> truthy (mimeType options) \<or> isTypeSupported (the (mimeType options))
      then Some options else chooseCodec isTypeSupported rest)"

text \<open>
  \<open>stopRecording\<close>: nothing without a recorder or with an inactive one; otherwise the
  recording flag and the timer are cleared, a recording recorder is stopped and the
  camera tracks are stopped.
\<close>

definition stopRecording :: "sts_state \<Rightarrow> sts_state" where
  "stopRecording s =
     (case mediaRecorderRef s of
        None \<Rightarrow> s
      | Some r \<Rightarrow>
          if rec_state r = Inactive then s
          else s\<lparr>isRecording := False,
                 recordingTimerRef := False,
                 mediaRecorderRef :=
                   Some (if rec_state r = Recording then r\<lparr>rec_state := Inactive\<rparr> else r),
                 mediaStreamRef := False\<rparr>)"

text \<open>
  \<open>startRecording\<close>, given what \<open>getUserMedia\<close> does (\<open>Some msg\<close>: it rejects with that
  message) and which types the recorder supports. The recorder is started, the time is
  set to 0 and the 100 ms interval is installed. The timeout set after it tests the
  \<open>isRecording\<close> of the render that started the recording, which is false: it does
  nothing and is left out.
\<close>

definition startRecording :: "string option \<Rightarrow> (string \<Rightarrow> bool) \<Rightarrow> sts_state \<Rightarrow> sts_state" where
  "startRecording getUserMedia_error isTypeSupported s =
     (case getUserMedia_error of
        Some msg \<Rightarrow> s\<lparr>error := ''Failed to access camera: '' @ msg, isRecording := False\<rparr>
      | None \<Rightarrow>
          (let options =
                 (case chooseCodec isTypeSupported codecOptions of
                    Some opt \<Rightarrow> opt
                  | None \<Rightarrow> \<lparr>mimeType = None, videoBitsPerSecond = None\<rparr>)
           in s\<lparr>mediaStreamRef := True,
                 videoChunksRef := [],
                 mediaRecorderRef := Some \<lparr>rec_state = Recording, rec_options = options\<rparr>,
                 isRecording := True,
                 recordingTime := 0,
                 recordingTimerRef := True\<rparr>))"

text \<open>
  The interval's callback. \<open>prev + 0.1\<close> is a sum of doubles, rounded: it is the
  parameter \<open>add_tenth\<close>, so that what is proved holds for the rounded sum as it does for
  the exact one.
\<close>

definition recordingTimer_callback :: "(rat \<Rightarrow> rat) \<Rightarrow> sts_state \<Rightarrow> sts_state" where
  "recordingTimer_callback add_tenth s =
     (let newTime = add_tenth (recordingTime s)
      in if newTime \<ge> MAX_RECORDING_DURATION
         then (stopRecording s)\<lparr>recordingTime := MAX_RECORDING_DURATION\<rparr>
         else s\<lparr>recordingTime := newTime\<rparr>)"

text \<open>The interval fires \<open>n\<close> times; a cleared interval does not call back.\<close>

fun recordingTimer_fires :: "(rat \<Rightarrow> rat) \<Rightarrow> nat \<Rightarrow> sts_state \<Rightarrow> sts_state" where
  "recordingTimer_fires add_tenth 0 s = s"
| "recordingTimer_fires add_tenth (Suc n) s =
     recordingTimer_fires add_tenth n
       (if recordingTimerRef s then recordingTimer_callback add_tenth s else s)"

text \<open>The timers and the audio among a handler's effects.\<close>

definition timeouts_of :: "effect list \<Rightarrow> (nat \<times> bool) list" where
  "timeouts_of effs =
     concat (map (\<lambda>e. case e of SetTimeout_setIsEmergency ms b \<Rightarrow> [(ms, b)] | _ \<Rightarrow> []) effs)"

definition audio_of :: "effect list \<Rightarrow> effect list" where
  "audio_of effs =
     filter (\<lambda>e. case e of AudioPlay u \<Rightarrow> True | SpeechSynthesisSpeak t \<Rightarrow> True | _ \<Rightarrow> False) effs"

section \<open>components/Dashboard/SpeechToSign.jsx\<close>

text \<open>
  The second component keeps a state of its own; its \<open>useState\<close> values carry the prefix
  \<open>sp_\<close> here, its refs their own names. \<open>pendingRequestsRef\<close> is a JavaScript Set, kept
  as a list without repetition. Its handlers too are closures: the keys \<open>apiKeys\<close> and the
  provider \<open>p\<close> they are given are those of the render that created them.
\<close>

record s2s_state =
  sp_isRecording :: bool
  sp_transcription :: utf16
  sp_summary :: utf16
  sp_error :: string
  sp_provider :: string
  sp_language :: string
  sp_audioLevel :: rat
  finalTranscriptRef :: utf16
  interimTranscriptRef :: utf16
  chunkIntervalRef :: bool
  transcriptionChunkRef :: utf16
  previousContextRef :: utf16
  pendingRequestsRef :: "string list"
  pendingRequestsCount :: nat
  chunkCounterRef :: nat

definition SpeechToSign_init :: s2s_state where
  "SpeechToSign_init =
     \<lparr>sp_isRecording = False, sp_transcription = [], sp_summary = [], sp_error = [],
      sp_provider = ''openai'', sp_language = ''en-US'', sp_audioLevel = 0,
      finalTranscriptRef = [], interimTranscriptRef = [], chunkIntervalRef = False,
      transcriptionChunkRef = [], previousContextRef = [], pendingRequestsRef = [],
      pendingRequestsCount = 0, chunkCounterRef = 0\<rparr>"

text \<open>A number in a template string: its decimal digits.\<close>

function string_of_nat :: "nat \<Rightarrow> string" where
  "string_of_nat n =
     (if n < 10 then [char_of (48 + n)]
      else string_of_nat (n div 10) @ [char_of (48 + n mod 10)])"
  by pat_completeness auto
termination
  by (relation "measure id") auto

declare string_of_nat.simps [simp del]

text \<open>One result of the speech recognition, and the \<open>onresult\<close> handler's loop over them.\<close>

record speech_result =
  transcript :: utf16
  isFinal :: bool

definition onresult_step :: "s2s_state \<Rightarrow> speech_result \<Rightarrow> s2s_state" where
  "onresult_step s r =
     (if isFinal r
      then s\<lparr>finalTranscriptRef := finalTranscriptRef s @ transcript r @ units_of '' ''\<rparr>
      else s\<lparr>interimTranscriptRef := transcript r\<rparr>)"

definition recognition_onresult :: "nat \<Rightarrow> speech_result list \<Rightarrow> s2s_state \<Rightarrow> s2s_state" where
  "recognition_onresult resultIndex results s =
     (let s1 = foldl onresult_step (s\<lparr>interimTranscriptRef := []\<rparr>) (drop resultIndex results)
      in s1\<lparr>sp_transcription := trim (finalTranscriptRef s1 @ interimTranscriptRef s1)\<rparr>)"

text \<open>
  \<open>sendTranscriptionChunk\<close>, with the backend's answer to the request. The handler
  returns the state and the requests it made.
\<close>

definition sendTranscriptionChunk ::
  "(request \<Rightarrow> api_error + summary_result) \<Rightarrow> api_key list \<Rightarrow> string \<Rightarrow> utf16 \<Rightarrow> nat
     \<Rightarrow> s2s_state \<Rightarrow> s2s_state \<times> request list" where
  "sendTranscriptionChunk api apiKeys p transcriptionText chunkNumber s =
     (if \<not> hasAPIKey apiKeys p \<or> trim transcriptionText = [] then (s, [])
      else
        (let requestId = ''chunk-'' @ string_of_nat chunkNumber;
             s1 = s\<lparr>pendingRequestsRef := List.insert requestId (pendingRequestsRef s)\<rparr>;
             s2 = s1\<lparr>pendingRequestsCount := length (pendingRequestsRef s1)\<rparr>;
             req = transcriptionChunkSummary transcriptionText p
                     (if previousContextRef s = [] then None else Some (previousContextRef s));
             s3 = (case api req of
                     Inl err \<Rightarrow> s2
                   | Inr result \<Rightarrow>
                       if truthy (summary result)
                       then s2\<lparr>previousContextRef := the (summary result),
                               sp_summary := the (summary result)\<rparr>
                       else s2);
             s4 = s3\<lparr>pendingRequestsRef := removeAll requestId (pendingRequestsRef s3)\<rparr>
         in (s4\<lparr>pendingRequestsCount := length (pendingRequestsRef s4)\<rparr>, [req])))"

text \<open>
  The callback of the 5000 ms interval that the effect installs while recording. The
  effect depends on the key of the provider, so the callback is that of the latest
  render.
\<close>

definition chunkInterval_callback ::
  "(request \<Rightarrow> api_error + summary_result) \<Rightarrow> api_key list \<Rightarrow> string \<Rightarrow> s2s_state
     \<Rightarrow> s2s_state \<times> request list" where
  "chunkInterval_callback api apiKeys p s =
     (let currentTranscription = trim (finalTranscriptRef s)
      in if currentTranscription \<noteq> [] \<and> currentTranscription \<noteq> transcriptionChunkRef s then
           (let newText = trim (replace_first currentTranscription (transcriptionChunkRef s))
            in if newText \<noteq> [] then
                 (let s1 = s\<lparr>chunkCounterRef := chunkCounterRef s + 1\<rparr>;
                      (s2, reqs) = sendTranscriptionChunk api apiKeys p currentTranscription
                                     (chunkCounterRef s1) s1
                  in (s2\<lparr>transcriptionChunkRef := currentTranscription\<rparr>, reqs))
               else (s, []))
         else (s, []))"

text \<open>
  \<open>startRecording\<close> and \<open>stopRecording\<close> of this component: the first refuses without a
  key for the provider; the second clears the interval and sends what remains.
\<close>

definition SpeechToSign_startRecording ::
  "bool \<Rightarrow> api_key list \<Rightarrow> string \<Rightarrow> s2s_state \<Rightarrow> s2s_state" where
  "SpeechToSign_startRecording getUserMedia_fails apiKeys p s =
     (if \<not> hasAPIKey apiKeys p then
        s\<lparr>sp_error := ''Please configure your '' @ p @ '' API key in Settings.''\<rparr>
      else
        (let s1 = s\<lparr>sp_error := [], sp_transcription := [], sp_summary := [],
                     finalTranscriptRef := [], interimTranscriptRef := [],
                     previousContextRef := [], transcriptionChunkRef := [],
                     chunkCounterRef := 0, sp_isRecording := True, sp_audioLevel := 0,
                     chunkIntervalRef := True\<rparr>
         in if getUserMedia_fails then
              s1\<lparr>sp_error := ''Microphone access denied. Please allow microphone permissions.'',
                  sp_isRecording := False, chunkIntervalRef := False\<rparr>
            else s1))"

definition SpeechToSign_stopRecording ::
  "(request \<Rightarrow> api_error + summary_result) \<Rightarrow> api_key list \<Rightarrow> string \<Rightarrow> s2s_state
     \<Rightarrow> s2s_state \<times> request list" where
  "SpeechToSign_stopRecording api apiKeys p s =
     (let s1 = s\<lparr>sp_isRecording := False, sp_audioLevel := 0, chunkIntervalRef := False\<rparr>;
          finalTranscription = trim (finalTranscriptRef s1)
      in if finalTranscription \<noteq> [] \<and> finalTranscription \<noteq> transcriptionChunkRef s1 then
           (let s2 = s1\<lparr>chunkCounterRef := chunkCounterRef s1 + 1\<rparr>
            in sendTranscriptionChunk api apiKeys p finalTranscription (chunkCounterRef s2) s2)
         else (s1, []))"

section \<open>utils/videoCompression.js\<close>

text \<open>
  A number as JavaScript has it here: a double, which is a rational, or positive
  Infinity, which is what \<open>video.duration\<close> is for a source whose length is not known.
  Comparisons and \<open>Math.min\<close> are exact on doubles, and so are the sums of the counter
  \<open>currentTime\<close>, a small whole number. The product \<open>duration * 1000\<close> and the quotient
  \<open>currentTime / 1000\<close> are rounded: they are the two functions of \<open>double_arith\<close>, which
  the loop is given, so that what is proved holds for the rounding of doubles as it does
  for exact arithmetic.
\<close>

datatype jsnum = Finite rat | Infinity

record double_arith =
  times_1000 :: "rat \<Rightarrow> jsnum"
  over_1000 :: "nat \<Rightarrow> rat"

fun num_truthy :: "jsnum option \<Rightarrow> bool" where
  "num_truthy None = False"
| "num_truthy (Some (Finite q)) = (q \<noteq> 0)"
| "num_truthy (Some Infinity) = True"

fun Math_min :: "jsnum \<Rightarrow> jsnum \<Rightarrow> jsnum" where
  "Math_min (Finite a) (Finite b) = Finite (min a b)"
| "Math_min (Finite a) Infinity = Finite a"
| "Math_min Infinity b = b"

text \<open>\<open>duration * 1000\<close>.\<close>

fun times_num :: "double_arith \<Rightarrow> jsnum \<Rightarrow> jsnum" where
  "times_num fp (Finite a) = times_1000 fp a"
| "times_num fp Infinity = Infinity"


text \<open>\<open>n >= x\<close> and \<open>n < x\<close> for a counter \<open>n\<close>.\<close>

fun ge_num :: "nat \<Rightarrow> jsnum \<Rightarrow> bool" where
  "ge_num n (Finite q) = (of_nat n \<ge> q)"
| "ge_num n Infinity = False"

fun lt_num :: "nat \<Rightarrow> jsnum \<Rightarrow> bool" where
  "lt_num n (Finite q) = (of_nat n < q)"
| "lt_num n Infinity = True"

text \<open>What the frame loop does to the video, the canvas and the recorder.\<close>

datatype cv_action =
    Seek rat
  | DrawImage nat nat nat nat
  | RecorderStop

definition targetWidth :: nat where
  "targetWidth = 1280"

definition targetHeight :: nat where
  "targetHeight = 720"

definition frameInterval :: nat where
  "frameInterval = 42"

text \<open>
  \<open>drawFrame\<close> with its \<open>onseeked\<close> handler and the two timeouts, as one loop: a round
  seeks to \<open>currentTime / 1000\<close>, draws the frame on the canvas and advances
  \<open>currentTime\<close>; then the next round is scheduled, or the recorder's stop. The actions so
  far are carried along. The loop need not end, so its result is optional. The browser
  is taken to fire \<open>canplay\<close> once, and \<open>seeked\<close> after each seek.
\<close>

partial_function (option) drawFrame ::
  "double_arith \<Rightarrow> jsnum \<Rightarrow> nat \<Rightarrow> cv_action list \<Rightarrow> cv_action list option" where
  "drawFrame fp duration currentTime acts =
     (if ge_num currentTime (times_num fp duration) then Some (acts @ [RecorderStop])
      else if lt_num (currentTime + frameInterval) (times_num fp duration) then
        drawFrame fp duration (currentTime + frameInterval)
          (acts @ [Seek (over_1000 fp currentTime), DrawImage 0 0 targetWidth targetHeight])
      else
        Some (acts @ [Seek (over_1000 fp currentTime), DrawImage 0 0 targetWidth targetHeight]
                   @ [RecorderStop]))"

definition recorder_ondataavailable :: "blob list \<Rightarrow> blob \<Rightarrow> blob list" where
  "recorder_ondataavailable chunks e = (if blob_size e > 0 then chunks @ [e] else chunks)"

definition new_Blob :: "blob list \<Rightarrow> string \<Rightarrow> blob" where
  "new_Blob parts t = \<lparr>blob_type = t, blob_bytes = concat (map blob_bytes parts)\<rparr>"

definition recorder_onstop :: "blob list \<Rightarrow> blob" where
  "recorder_onstop chunks = new_Blob chunks ''video/webm''"

record cv_run =
  canvas_width :: nat
  canvas_height :: nat
  captureStream_frameRate :: nat
  recorder_mimeType :: string
  recorder_videoBitsPerSecond :: nat
  actions :: "cv_action list"
  resolved :: blob

datatype cv_outcome = Resolved cv_run | Rejected string

text \<open>The two handlers that reject: the video's \<open>onerror\<close> and the recorder's.\<close>

definition video_onerror :: "string \<Rightarrow> cv_outcome" where
  "video_onerror msg = Rejected (''Failed to load video: '' @ msg)"

definition recorder_onerror :: "string \<Rightarrow> cv_outcome" where
  "recorder_onerror e = Rejected (''Video compression failed: '' @ e)"

text \<open>The duration to process: \<open>maxDuration ? Math.min(video.duration, maxDuration) : video.duration\<close>.\<close>

definition duration_of :: "jsnum \<Rightarrow> jsnum option \<Rightarrow> jsnum" where
  "duration_of video_duration maxDuration =
     (if num_truthy maxDuration then Math_min video_duration (the maxDuration)
      else video_duration)"

text \<open>
  What \<open>compressVideo\<close> does to an input video, once its metadata has loaded with the
  duration \<open>video_duration\<close>: the actions of the frame loop. Nothing in the loop looks at
  the recorder's state, so an error of the recorder does not change them.
\<close>

definition compressVideo_actions ::
  "double_arith \<Rightarrow> jsnum \<Rightarrow> jsnum option \<Rightarrow> cv_action list option" where
  "compressVideo_actions fp video_duration maxDuration =
     drawFrame fp (duration_of video_duration maxDuration) 0 []"

text \<open>
  The promise of \<open>compressVideo\<close> for such a video, given \<open>maxDuration\<close> (\<open>None\<close> is null),
  the error the recorder raises if it raises one, and the data the recorder delivers, in
  order. \<open>None\<close>: the promise is never settled. (A blob that does not load as a video only
  runs \<open>video_onerror\<close>.)
\<close>

definition compressVideo ::
  "double_arith \<Rightarrow> jsnum \<Rightarrow> jsnum option \<Rightarrow> string option \<Rightarrow> blob list \<Rightarrow> cv_outcome option" where
  "compressVideo fp video_duration maxDuration recorder_error dataEvents =
     (case recorder_error of
        Some e \<Rightarrow> Some (recorder_onerror e)
      | None \<Rightarrow>
          (case compressVideo_actions fp video_duration maxDuration of
             None \<Rightarrow> None
           | Some acts \<Rightarrow>
               Some (Resolved
                 \<lparr>canvas_width = targetWidth,
                  canvas_height = targetHeight,
                  captureStream_frameRate = 24,
                  recorder_mimeType = ''video/webm;codecs=vp9'',
                  recorder_videoBitsPerSecond = 250000,
                  actions = acts,
                  resolved = recorder_onstop
                               (foldl recorder_ondataavailable [] dataEvents)\<rparr>)))"

text \<open>
  The frames a run is expected to take: frame \<open>k\<close> seeks to \<open>42 k\<close> milliseconds and
  draws; \<open>frame_count ms\<close> is the number of multiples of 42 below \<open>ms\<close>.
\<close>

definition frame :: "double_arith \<Rightarrow> nat \<Rightarrow> cv_action list" where
  "frame fp k = [Seek (over_1000 fp (frameInterval * k)), DrawImage 0 0 targetWidth targetHeight]"

definition frame_count :: "rat \<Rightarrow> nat" where
  "frame_count ms = nat \<lceil>ms / of_nat frameInterval\<rceil>"


text \<open>Arithmetic without rounding, for the runs worked out below.\<close>

definition exact_arith :: double_arith where
  "exact_arith = \<lparr>times_1000 = (\<lambda>a. Finite (a * 1000)), over_1000 = (\<lambda>n. of_nat n / 1000)\<rparr>"

section \<open>services/api.js: the response interceptor\<close>

text \<open>
  The browser as the interceptor touches it: \<open>localStorage\<close> and \<open>window.location.href\<close>.
\<close>

record browser =
  localStorage :: "string \<rightharpoonup> string"
  location_href :: string

record http_response =
  status :: nat
  response_data :: string

text \<open>The error axios rejects with; \<open>None\<close>: no response was received.\<close>

record axios_error =
  error_response :: "http_response option"

datatype settled = Fulfilled http_response | Rejection axios_error

definition removeItem :: "string \<Rightarrow> (string \<rightharpoonup> string) \<Rightarrow> (string \<rightharpoonup> string)" where
  "removeItem k store = store(k := None)"

definition interceptor_fulfilled :: "http_response \<Rightarrow> browser \<Rightarrow> browser \<times> settled" where
  "interceptor_fulfilled r b = (b, Fulfilled r)"

definition interceptor_rejected :: "axios_error \<Rightarrow> browser \<Rightarrow> browser \<times> settled" where
  "interceptor_rejected e b =
     (if map_option status (error_response e) = Some 401 then
        (b\<lparr>localStorage := removeItem ''aria_user'' (removeItem ''aria_token'' (localStorage b)),
           location_href := ''/login''\<rparr>,
         Rejection e)
      else (b, Rejection e))"

text \<open>
  axios settles a response by its status (\<open>validateStatus\<close>, 2xx by default: the client
  does not change it) and runs the matching handler of the interceptor.
\<close>

definition validateStatus :: "nat \<Rightarrow> bool" where
  "validateStatus st = (200 \<le> st \<and> st < 300)"

definition api_receive :: "http_response \<Rightarrow> browser \<Rightarrow> browser \<times> settled" where
  "api_receive r b =
     (if validateStatus (status r) then interceptor_fulfilled r b
      else interceptor_rejected \<lparr>error_response = Some r\<rparr> b)"

section \<open>components/Dashboard/History.jsx\<close>

record history_entry =
  entry_id :: nat
  operation_type :: string
  input_text :: "string option"
  output_text :: "string option"
  output_gloss :: "string list option"
  entry_provider :: string
  processing_time_ms :: nat

text \<open>What is rendered: text, or an element with its tag, class and children.\<close>

datatype vnode =
    VText string
  | VElement string string "vnode list"

definition input_section :: "history_entry \<Rightarrow> vnode list" where
  "input_section entry =
     (if truthy (input_text entry) then
        [VElement ''div'' ''mb-3''
           [VElement ''strong'' [] [VText ''Input:''], VText '' '',
            VElement ''span'' ''text-black'' [VText (the (input_text entry))]]]
      else [])"

definition output_section :: "history_entry \<Rightarrow> vnode list" where
  "output_section entry =
     (if truthy (output_text entry) then
        [VElement ''div'' ''mb-3''
           [VElement ''strong'' [] [VText ''Translation:''], VText '' '',
            VElement ''span'' ''text-black font-semibold'' [VText (the (output_text entry))]]]
      else [])"

text \<open>An array is truthy, the empty one too; null and undefined are not.\<close>

definition gloss_section :: "history_entry \<Rightarrow> vnode list" where
  "gloss_section entry =
     (case output_gloss entry of
        None \<Rightarrow> []
      | Some gloss \<Rightarrow>
          [VElement ''div'' ''mb-3''
             [VElement ''strong'' [] [VText ''Gloss:''],
              VElement ''div'' ''flex flex-wrap gap-2 mt-2''
                (map (\<lambda>word. VElement ''span'' ''bg-indigo-100 text-indigo-800 px-3 py-1 rounded''
                                [VText word]) gloss)]])"

definition entry_sections :: "history_entry \<Rightarrow> vnode list" where
  "entry_sections entry = input_section entry @ output_section entry @ gloss_section entry"

text \<open>The texts of the badges in a rendered tree, in document order.\<close>

fun badges :: "vnode \<Rightarrow> string list" where
  "badges (VText t) = []"
| "badges (VElement tag cls children) =
     (if cls = ''bg-indigo-100 text-indigo-800 px-3 py-1 rounded''
      then [concat (map (\<lambda>c. case c of VText t \<Rightarrow> t | _ \<Rightarrow> []) children)]
      else concat (map badges children))"

section \<open>Concrete inputs\<close>

definition example_keys :: "api_key list" where
  "example_keys = [\<lparr>key_provider = ''gemini-pro'', is_active = True\<rparr>,
                   \<lparr>key_provider = ''openai'', is_active = True\<rparr>]"

definition emergency_env :: sts_env where
  "emergency_env =
     \<lparr>backend = (\<lambda>r. Inr \<lparr>translation = Some ''Help! This is an EMERGENCY.'', audio_base64 = None\<rparr>),
      atob = (\<lambda>a. None),
      createObjectURL = (\<lambda>b. ''blob:1'')\<rparr>"

definition audio_env :: sts_env where
  "audio_env =
     \<lparr>backend = (\<lambda>r. Inr \<lparr>translation = Some ''Thank you'', audio_base64 = Some ''SUQz''\<rparr>),
      atob = (\<lambda>a. if a = ''SUQz'' then Some [73, 68, 51] else None),
      createObjectURL = (\<lambda>b. ''blob:1'')\<rparr>"

text \<open>
  A backend whose audio is not base64: \<open>atob\<close> throws on \<open>%%%\<close>, none of whose characters
  is in the base64 alphabet.
\<close>

definition broken_audio_env :: sts_env where
  "broken_audio_env =
     \<lparr>backend = (\<lambda>r. Inr \<lparr>translation = Some ''Thank you'', audio_base64 = Some ''%%%''\<rparr>),
      atob = (\<lambda>a. if a = ''SUQz'' then Some [73, 68, 51] else None),
      createObjectURL = (\<lambda>b. ''blob:1'')\<rparr>"

definition example_image :: media where
  "example_image = MediaString ''data:image/jpeg;base64,AAAA''"

definition example_video :: media where
  "example_video = MediaBlob \<lparr>blob_type = ''video/webm'', blob_bytes = [26, 69, 223, 163]\<rparr>"

text \<open>
  A recording begun with gemini-pro selected; while it runs, openai is selected.
\<close>

definition openai_selected_while_recording :: sts_state where
  "openai_selected_while_recording =
     selectProvider ''openai'' (startRecording None (\<lambda>t. True) SignToSpeech_init)"

definition summary_api :: "request \<Rightarrow> api_error + summary_result" where
  "summary_api r = Inr \<lparr>summary = Some (units_of ''A greeting to everyone.'')\<rparr>"

definition heard_hello :: s2s_state where
  "heard_hello =
     recognition_onresult 0 [\<lparr>transcript = units_of ''hello everyone'', isFinal = True\<rparr>]
       (SpeechToSign_startRecording False example_keys ''openai'' SpeechToSign_init)"

text \<open>
  The same recording, when the key for openai is deleted in the settings while it runs
  and saved again later: the interval fires once in between, with the keys that remain,
  and once after.
\<close>

definition remaining_keys :: "api_key list" where
  "remaining_keys = [\<lparr>key_provider = ''gemini-pro'', is_active = True\<rparr>]"

definition fired_without_key :: s2s_state where
  "fired_without_key =
     fst (chunkInterval_callback summary_api remaining_keys ''openai'' heard_hello)"

definition fired_with_key_again :: s2s_state where
  "fired_with_key_again =
     fst (chunkInterval_callback summary_api example_keys ''openai'' fired_without_key)"

definition two_chunks :: "blob list" where
  "two_chunks = [\<lparr>blob_type = ''video/webm'', blob_bytes = [26, 69]\<rparr>,
                 \<lparr>blob_type = ''video/webm'', blob_bytes = []\<rparr>,
                 \<lparr>blob_type = ''video/webm'', blob_bytes = [223]\<rparr>]"

definition example_entry :: history_entry where
  "example_entry =
     \<lparr>entry_id = 7, operation_type = ''speech_to_sign'', input_text = Some ''hello how are you'',
      output_text = None, output_gloss = Some [''HELLO'', ''HOW'', ''YOU''],
      entry_provider = ''openai'', processing_time_ms = 812\<rparr>"

definition nearly_done :: sts_state where
  "nearly_done = (startRecording None (\<lambda>t. True) SignToSpeech_init)\<lparr>recordingTime := 49 / 10\<rparr>"

definition signed_in :: browser where
  "signed_in =
     \<lparr>localStorage = [''aria_token'' \<mapsto> ''eyJhbGciOi'', ''aria_user'' \<mapsto> ''{id:1}'',
                       ''theme'' \<mapsto> ''dark''],
      location_href = ''/dashboard''\<rparr>"

section \<open>Properties of sendToAPI\<close>

lemma string_includes_Nil [simp]: "string_includes [] (c # cs) = False"
  by simp

lemma isEmergencyDetected_iff:
  "isEmergencyDetected result \<longleftrightarrow>
     (\<exists>t. translation result = Some t \<and> string_includes (toLowerCase t) ''this is an emergency'')"
  by (auto simp: isEmergencyDetected_def toLowerCase_def split: option.splits)

lemma sendToAPI_on_result:
  assumes "hasAPIKey apiKeys p"
    and "\<not> (mediaType = ''video'' \<and> p = ''openai'')"
    and "snd (callService env m mediaType p) = Inr result"
  shows "sendToAPI env apiKeys p m mediaType s =
           ((fst (onResult env result
                (s\<lparr>loading := True, error := [], translation_text := Some [], audioUrl := []\<rparr>)))
              \<lparr>loading := False\<rparr>,
            map Request (fst (callService env m mediaType p)) @
            snd (onResult env result
                (s\<lparr>loading := True, error := [], translation_text := Some [], audioUrl := []\<rparr>)))"
proof (cases "callService env m mediaType p")
  case (Pair reqs outcome)
  with assms(3) have "outcome = Inr result" by simp
  with Pair assms(1,2) show ?thesis
    by (auto simp: sendToAPI_def Let_def split: prod.splits)
qed

lemma onResult_isEmergency:
  "isEmergency (fst (onResult env result s1)) = (isEmergency s1 \<or> isEmergencyDetected result)"
  by (simp add: onResult_def Let_def split: option.splits)

lemma onResult_timeouts:
  "timeouts_of (snd (onResult env result s1)) =
     (if isEmergencyDetected result then [(200, False), (400, True), (600, False)] else [])"
  by (simp add: onResult_def Let_def timeouts_of_def split: option.splits)

lemma onResult_audio:
  "audio_of (snd (onResult env result s1)) =
     (if truthy (audio_base64 result) then
        (case atob env (the (audio_base64 result)) of
           None \<Rightarrow> []
         | Some audioBytes \<Rightarrow>
             [AudioPlay (createObjectURL env \<lparr>blob_type = ''audio/mpeg'', blob_bytes = audioBytes\<rparr>)])
      else if truthy (translation result) then [SpeechSynthesisSpeak (the (translation result))]
      else [])"
  by (simp add: onResult_def Let_def audio_of_def split: option.splits)

lemma onResult_audioUrl:
  "audioUrl (fst (onResult env result s1)) =
     (if truthy (audio_base64 result) then
        (case atob env (the (audio_base64 result)) of
           None \<Rightarrow> audioUrl s1
         | Some audioBytes \<Rightarrow>
             createObjectURL env \<lparr>blob_type = ''audio/mpeg'', blob_bytes = audioBytes\<rparr>)
      else audioUrl s1)"
  by (simp add: onResult_def Let_def split: option.splits)

lemma onResult_error:
  "error (fst (onResult env result s1)) =
     (if truthy (audio_base64 result) \<and> atob env (the (audio_base64 result)) = None
      then ''Failed to analyze sign.'' else error s1)"
  by (simp add: onResult_def Let_def split: option.splits)

lemma timeouts_of_requests: "timeouts_of (map Request rs @ effs) = timeouts_of effs"
  by (induction rs) (simp_all add: timeouts_of_def)

lemma audio_of_requests: "audio_of (map Request rs @ effs) = audio_of effs"
  by (induction rs) (simp_all add: audio_of_def)

lemma count_list_remove1: "count_list (remove1 x xs) x = count_list xs x - 1"
  by (induction xs) auto

lemma commit_isEmergency_count:
  assumes "count_list bodyChildren ''emergency-overlay'' = (if before then 1 else 0)"
  shows "count_list (commit_isEmergency before now bodyChildren) ''emergency-overlay''
           = (if now then 1 else 0)"
  using assms
  by (auto simp: commit_isEmergency_def emergencyOverlay_effect_def
      emergencyOverlay_cleanup_def count_list_remove1)

lemma commit_isEmergency_shown:
  assumes "count_list bodyChildren ''emergency-overlay'' = (if before then 1 else 0)"
  shows "(''emergency-overlay'' \<in> set (commit_isEmergency before now bodyChildren)) = now"
proof (cases now)
  case True
  with commit_isEmergency_count[OF assms, of now]
  have "count_list (commit_isEmergency before now bodyChildren) ''emergency-overlay'' \<noteq> 0"
    by simp
  then have "''emergency-overlay'' \<in> set (commit_isEmergency before now bodyChildren)"
    by (simp add: count_list_0_iff)
  with True show ?thesis by simp
next
  case False
  with commit_isEmergency_count[OF assms, of now]
  have "count_list (commit_isEmergency before now bodyChildren) ''emergency-overlay'' = 0"
    by simp
  then have "''emergency-overlay'' \<notin> set (commit_isEmergency before now bodyChildren)"
    by (simp add: count_list_0_iff)
  with False show ?thesis by simp
qed

lemma example_keys_gemini: "hasAPIKey example_keys ''gemini-pro''"
  by (simp add: hasAPIKey_def example_keys_def)

text \<open>
  C8, as the code has it: \<open>sendToAPI\<close> is a closure, and its guards test the keys and the
  provider of the render that created it. Without an active key for that provider, or
  for a video while that provider is openai, sendToAPI sets an error message and returns:
  it has no effect at all, so no backend request is issued, and the state is the one
  before but for the error; the translation, the audio URL and the loading flag are
  unchanged.
\<close>

theorem sendToAPI_guard:
  assumes "\<not> hasAPIKey apiKeys p \<or> (mediaType = ''video'' \<and> p = ''openai'')"
  shows "error (fst (sendToAPI env apiKeys p m mediaType s)) \<noteq> []
       \<and> snd (sendToAPI env apiKeys p m mediaType s) = []
       \<and> requests_of (snd (sendToAPI env apiKeys p m mediaType s)) = []
       \<and> translation_text (fst (sendToAPI env apiKeys p m mediaType s)) = translation_text s
       \<and> audioUrl (fst (sendToAPI env apiKeys p m mediaType s)) = audioUrl s
       \<and> loading (fst (sendToAPI env apiKeys p m mediaType s)) = loading s
       \<and> fst (sendToAPI env apiKeys p m mediaType s)
           = s\<lparr>error := error (fst (sendToAPI env apiKeys p m mediaType s))\<rparr>"
  using assms by (auto simp: sendToAPI_def requests_of_def)

theorem sendToAPI_guard_witness:
  "\<not> hasAPIKey [] ''gemini-pro''
   \<and> error (fst (sendToAPI audio_env [] ''gemini-pro'' example_image ''image'' SignToSpeech_init))
       = ''Please configure your gemini-pro API key in Settings.''
   \<and> snd (sendToAPI audio_env [] ''gemini-pro'' example_image ''image'' SignToSpeech_init) = []
   \<and> loading (fst (sendToAPI audio_env [] ''gemini-pro'' example_image ''image'' SignToSpeech_init))
       = False
   \<and> error (fst (sendToAPI audio_env example_keys ''openai'' example_video ''video''
                     openai_selected_while_recording))
       = ''Video input requires Gemini provider. Please select Gemini Pro or Gemini Flash.''
   \<and> requests_of (snd (sendToAPI audio_env example_keys ''openai'' example_video ''video''
                     openai_selected_while_recording)) = []"
proof -
  have n: "\<not> hasAPIKey [] ''gemini-pro''"
    by (simp add: hasAPIKey_def)
  have 1: "error (fst (sendToAPI audio_env [] ''gemini-pro'' example_image ''image'' SignToSpeech_init))
       = ''Please configure your gemini-pro API key in Settings.''"
    by (simp add: sendToAPI_def n)
  have 2: "error (fst (sendToAPI audio_env example_keys ''openai'' example_video ''video''
                     openai_selected_while_recording))
       = ''Video input requires Gemini provider. Please select Gemini Pro or Gemini Flash.''"
    by (simp add: sendToAPI_def hasAPIKey_def example_keys_def)
  have l: "loading SignToSpeech_init = False"
    by (simp add: SignToSpeech_init_def)
  from sendToAPI_guard[of "[]" "''gemini-pro''" "''image''" audio_env example_image SignToSpeech_init]
    sendToAPI_guard[of example_keys "''openai''" "''video''" audio_env example_video
      openai_selected_while_recording]
    n 1 2 l
  show ?thesis by (simp add: requests_of_def)
qed

text \<open>
  C8 as stated, for the provider that is selected when sendToAPI runs, fails. A recording
  is begun with gemini-pro selected, and openai is selected while it runs. When the
  recorder stops, its \<open>onstop\<close> handler calls the sendToAPI of the render in which the
  recording began: the provider selected now is openai, the media is a video, the user
  has keys for both, and the video is posted, for gemini-pro.
\<close>

theorem sendToAPI_guard_counterexample:
  "provider openai_selected_while_recording = ''openai''
   \<and> requests_of (snd (sendToAPI audio_env example_keys ''gemini-pro'' example_video ''video''
                          openai_selected_while_recording))
       = [\<lparr>url = ''/api/sign-to-speech'',
           payload = [(''video_data'', DataURL \<lparr>blob_type = ''video/webm'', blob_bytes = [26, 69, 223, 163]\<rparr>),
                      (''provider'', Text ''gemini-pro'')]\<rparr>]"
  by (simp add: openai_selected_while_recording_def selectProvider_def startRecording_def
      SignToSpeech_init_def sendToAPI_def example_keys_gemini callService_def example_video_def
      audio_env_def onResult_def isEmergencyDetected_def requests_of_def Let_def)

text \<open>
  C2: when the guards of sendToAPI pass and the backend returns a result, isEmergency is
  set exactly when the translation, lowercased, contains \<open>this is an emergency\<close>, and
  the three timers of the blink are set exactly then; for any other translation the flag
  is what it was. After the effect on isEmergency has run, the red overlay is in the
  body exactly when the flag is set.
\<close>

theorem emergency_detection:
  assumes "hasAPIKey apiKeys p"
    and "\<not> (mediaType = ''video'' \<and> p = ''openai'')"
    and "snd (callService env m mediaType p) = Inr result"
    and "count_list bodyChildren ''emergency-overlay'' = (if isEmergency s then 1 else 0)"
  shows "isEmergency (fst (sendToAPI env apiKeys p m mediaType s)) =
           (isEmergency s \<or> (\<exists>t. translation result = Some t \<and>
               string_includes (toLowerCase t) ''this is an emergency''))
       \<and> timeouts_of (snd (sendToAPI env apiKeys p m mediaType s)) =
           (if \<exists>t. translation result = Some t \<and>
                 string_includes (toLowerCase t) ''this is an emergency''
            then [(200, False), (400, True), (600, False)] else [])
       \<and> (''emergency-overlay'' \<in> set (commit_isEmergency (isEmergency s)
              (isEmergency (fst (sendToAPI env apiKeys p m mediaType s))) bodyChildren))
           = isEmergency (fst (sendToAPI env apiKeys p m mediaType s))"
  unfolding sendToAPI_on_result[OF assms(1-3)]
  by (simp add: onResult_isEmergency onResult_timeouts timeouts_of_requests
      isEmergencyDetected_iff commit_isEmergency_shown[OF assms(4)])

theorem emergency_detection_witness:
  "hasAPIKey example_keys ''gemini-pro''
   \<and> snd (callService emergency_env example_image ''image'' ''gemini-pro'')
       = Inr \<lparr>translation = Some ''Help! This is an EMERGENCY.'', audio_base64 = None\<rparr>
   \<and> string_includes (toLowerCase ''Help! This is an EMERGENCY.'') ''this is an emergency''
   \<and> isEmergency (fst (sendToAPI emergency_env example_keys ''gemini-pro'' example_image ''image''
                          SignToSpeech_init))
   \<and> timeouts_of (snd (sendToAPI emergency_env example_keys ''gemini-pro'' example_image ''image''
                          SignToSpeech_init))
       = [(200, False), (400, True), (600, False)]
   \<and> ''emergency-overlay'' \<in> set (commit_isEmergency False True [''root''])"
proof -
  note k = example_keys_gemini
  have g: "\<not> (''image'' = ''video'' \<and> ''gemini-pro'' = ''openai'')"
    by simp
  have r: "snd (callService emergency_env example_image ''image'' ''gemini-pro'')
       = Inr \<lparr>translation = Some ''Help! This is an EMERGENCY.'', audio_base64 = None\<rparr>"
    by (simp add: callService_def emergency_env_def)
  have b: "count_list [''root''] ''emergency-overlay'' = (if isEmergency SignToSpeech_init then 1 else 0)"
    by (simp add: SignToSpeech_init_def)
  have i: "string_includes (toLowerCase ''Help! This is an EMERGENCY.'') ''this is an emergency''"
    by code_simp
  have e: "isEmergency SignToSpeech_init = False"
    by (simp add: SignToSpeech_init_def)
  from emergency_detection[OF k g r b] k r i show ?thesis
    by (auto simp: e)
qed

text \<open>
  C5, as the code has it: when the guards of sendToAPI pass and the backend returns a
  result, there are four cases. If the result has audio_base64 data (a non-empty string)
  that \<open>atob\<close> decodes, the bytes become an audio/mpeg blob whose object URL is stored and
  played, and nothing is spoken by the speech synthesis. If it has such data and \<open>atob\<close>
  throws on it, nothing is played and nothing is spoken: the \<open>catch\<close> sets the error
  \<open>Failed to analyze sign.\<close> Without audio_base64 data, a non-empty translation is spoken
  by the speech synthesis; with neither there is no audio.
\<close>

theorem sign_result_audio:
  assumes "hasAPIKey apiKeys p"
    and "\<not> (mediaType = ''video'' \<and> p = ''openai'')"
    and "snd (callService env m mediaType p) = Inr result"
  shows "(\<forall>a audioBytes. audio_base64 result = Some a \<and> a \<noteq> [] \<and> atob env a = Some audioBytes \<longrightarrow>
            audio_of (snd (sendToAPI env apiKeys p m mediaType s)) =
              [AudioPlay (createObjectURL env \<lparr>blob_type = ''audio/mpeg'', blob_bytes = audioBytes\<rparr>)]
          \<and> audioUrl (fst (sendToAPI env apiKeys p m mediaType s)) =
              createObjectURL env \<lparr>blob_type = ''audio/mpeg'', blob_bytes = audioBytes\<rparr>
          \<and> error (fst (sendToAPI env apiKeys p m mediaType s)) = [])
       \<and> (\<forall>a. audio_base64 result = Some a \<and> a \<noteq> [] \<and> atob env a = None \<longrightarrow>
            audio_of (snd (sendToAPI env apiKeys p m mediaType s)) = []
          \<and> audioUrl (fst (sendToAPI env apiKeys p m mediaType s)) = []
          \<and> error (fst (sendToAPI env apiKeys p m mediaType s)) = ''Failed to analyze sign.'')
       \<and> (\<forall>t. \<not> truthy (audio_base64 result) \<and> translation result = Some t \<and> t \<noteq> [] \<longrightarrow>
            audio_of (snd (sendToAPI env apiKeys p m mediaType s)) = [SpeechSynthesisSpeak t])
       \<and> (\<not> truthy (audio_base64 result) \<and> \<not> truthy (translation result) \<longrightarrow>
            audio_of (snd (sendToAPI env apiKeys p m mediaType s)) = [])"
  unfolding sendToAPI_on_result[OF assms]
  by (simp add: onResult_audio onResult_audioUrl onResult_error audio_of_requests)

theorem sign_result_audio_witness:
  "hasAPIKey example_keys ''gemini-pro''
   \<and> snd (callService audio_env example_image ''image'' ''gemini-pro'')
       = Inr \<lparr>translation = Some ''Thank you'', audio_base64 = Some ''SUQz''\<rparr>
   \<and> atob audio_env ''SUQz'' = Some [73, 68, 51]
   \<and> audio_of (snd (sendToAPI audio_env example_keys ''gemini-pro'' example_image ''image''
                       SignToSpeech_init))
       = [AudioPlay ''blob:1'']
   \<and> audioUrl (fst (sendToAPI audio_env example_keys ''gemini-pro'' example_image ''image''
                       SignToSpeech_init))
       = ''blob:1''
   \<and> snd (callService emergency_env example_image ''image'' ''gemini-pro'')
       = Inr \<lparr>translation = Some ''Help! This is an EMERGENCY.'', audio_base64 = None\<rparr>
   \<and> audio_of (snd (sendToAPI emergency_env example_keys ''gemini-pro'' example_image ''image''
                       SignToSpeech_init))
       = [SpeechSynthesisSpeak ''Help! This is an EMERGENCY.'']"
proof -
  note k = example_keys_gemini
  have g: "\<not> (''image'' = ''video'' \<and> ''gemini-pro'' = ''openai'')"
    by simp
  have r1: "snd (callService audio_env example_image ''image'' ''gemini-pro'')
       = Inr \<lparr>translation = Some ''Thank you'', audio_base64 = Some ''SUQz''\<rparr>"
    by (simp add: callService_def audio_env_def)
  have r2: "snd (callService emergency_env example_image ''image'' ''gemini-pro'')
       = Inr \<lparr>translation = Some ''Help! This is an EMERGENCY.'', audio_base64 = None\<rparr>"
    by (simp add: callService_def emergency_env_def)
  have a: "atob audio_env ''SUQz'' = Some [73, 68, 51]"
    by (simp add: audio_env_def)
  have u: "createObjectURL audio_env b = ''blob:1''" for b
    by (simp add: audio_env_def)
  from sign_result_audio[OF k g r1] sign_result_audio[OF k g r2] k r1 r2 a show ?thesis
    by (auto simp: u)
qed

text \<open>
  C5 as stated fails for a successful result whose audio_base64 is present and is not
  base64: no audio is played, the translation \<open>Thank you\<close> is not spoken either, and the
  view shows an error.
\<close>

theorem sign_result_audio_counterexample:
  "snd (callService broken_audio_env example_image ''image'' ''gemini-pro'')
       = Inr \<lparr>translation = Some ''Thank you'', audio_base64 = Some ''%%%''\<rparr>
   \<and> audio_of (snd (sendToAPI broken_audio_env example_keys ''gemini-pro'' example_image ''image''
                       SignToSpeech_init)) = []
   \<and> error (fst (sendToAPI broken_audio_env example_keys ''gemini-pro'' example_image ''image''
                    SignToSpeech_init)) = ''Failed to analyze sign.''"
  by (simp add: sendToAPI_def example_keys_gemini callService_def broken_audio_env_def
      onResult_def isEmergencyDetected_def audio_of_def Let_def example_image_def
      toLowerCase_def)

section \<open>Properties of the recording timer\<close>

lemma stopRecording_recordingTime: "recordingTime (stopRecording s) = recordingTime s"
  by (simp add: stopRecording_def split: option.splits)

lemma recordingTimer_callback_le:
  "recordingTime (recordingTimer_callback add_tenth s) \<le> MAX_RECORDING_DURATION"
  by (simp add: recordingTimer_callback_def Let_def)

lemma recordingTimer_fires_le:
  "recordingTime s \<le> MAX_RECORDING_DURATION \<Longrightarrow>
     recordingTime (recordingTimer_fires add_tenth n s) \<le> MAX_RECORDING_DURATION"
  by (induction n arbitrary: s) (simp_all add: recordingTimer_callback_le)

lemma startRecording_recordingTime:
  "recordingTime (startRecording None isTypeSupported s) = 0"
  by (simp add: startRecording_def Let_def)

text \<open>
  C9: after startRecording, however often the 100 ms interval fires, the displayed
  recording time is at most 5. A callback whose new time reaches 5 stops a recording
  recorder, clears the interval and the recording flag and sets the time to 5; a callback
  whose new time is below 5 only stores the new time. This holds for any rounding of
  the sum \<open>prev + 0.1\<close>.
\<close>

theorem recordingTime_bounded:
  "recordingTime (recordingTimer_fires add_tenth n (startRecording None isTypeSupported s0))
      \<le> MAX_RECORDING_DURATION
   \<and> (\<forall>s r. mediaRecorderRef s = Some r \<and> rec_state r = Recording
          \<and> add_tenth (recordingTime s) \<ge> MAX_RECORDING_DURATION \<longrightarrow>
        recordingTime (recordingTimer_callback add_tenth s) = MAX_RECORDING_DURATION
        \<and> mediaRecorderRef (recordingTimer_callback add_tenth s) = Some (r\<lparr>rec_state := Inactive\<rparr>)
        \<and> \<not> recordingTimerRef (recordingTimer_callback add_tenth s)
        \<and> \<not> isRecording (recordingTimer_callback add_tenth s))
   \<and> (\<forall>s. add_tenth (recordingTime s) < MAX_RECORDING_DURATION \<longrightarrow>
        recordingTimer_callback add_tenth s = s\<lparr>recordingTime := add_tenth (recordingTime s)\<rparr>)"
proof -
  have "recordingTime (recordingTimer_fires add_tenth n (startRecording None isTypeSupported s0))
      \<le> MAX_RECORDING_DURATION"
    by (rule recordingTimer_fires_le)
       (simp add: startRecording_recordingTime MAX_RECORDING_DURATION_def)
  moreover have "\<forall>s r. mediaRecorderRef s = Some r \<and> rec_state r = Recording
          \<and> add_tenth (recordingTime s) \<ge> MAX_RECORDING_DURATION \<longrightarrow>
        recordingTime (recordingTimer_callback add_tenth s) = MAX_RECORDING_DURATION
        \<and> mediaRecorderRef (recordingTimer_callback add_tenth s) = Some (r\<lparr>rec_state := Inactive\<rparr>)
        \<and> \<not> recordingTimerRef (recordingTimer_callback add_tenth s)
        \<and> \<not> isRecording (recordingTimer_callback add_tenth s)"
    by (simp add: recordingTimer_callback_def stopRecording_def Let_def)
  moreover have "\<forall>s. add_tenth (recordingTime s) < MAX_RECORDING_DURATION \<longrightarrow>
        recordingTimer_callback add_tenth s = s\<lparr>recordingTime := add_tenth (recordingTime s)\<rparr>"
    by (simp add: recordingTimer_callback_def Let_def)
  ultimately show ?thesis by blast
qed

theorem recordingTime_bounded_witness:
  "recordingTime (recordingTimer_fires (\<lambda>t. t + 1 / 10) 3 (startRecording None (\<lambda>t. True) SignToSpeech_init))
      = 3 / 10
   \<and> 3 / 10 \<le> MAX_RECORDING_DURATION
   \<and> mediaRecorderRef nearly_done
       = Some \<lparr>rec_state = Recording,
               rec_options = \<lparr>mimeType = Some ''video/webm;codecs=vp9'', videoBitsPerSecond = Some 250000\<rparr>\<rparr>
   \<and> recordingTime nearly_done + 1 / 10 \<ge> MAX_RECORDING_DURATION
   \<and> recordingTime (recordingTimer_callback (\<lambda>t. t + 1 / 10) nearly_done) = 5
   \<and> mediaRecorderRef (recordingTimer_callback (\<lambda>t. t + 1 / 10) nearly_done)
       = Some \<lparr>rec_state = Inactive,
               rec_options = \<lparr>mimeType = Some ''video/webm;codecs=vp9'', videoBitsPerSecond = Some 250000\<rparr>\<rparr>
   \<and> \<not> recordingTimerRef (recordingTimer_callback (\<lambda>t. t + 1 / 10) nearly_done)"
proof -
  have m: "mediaRecorderRef nearly_done
       = Some \<lparr>rec_state = Recording,
               rec_options = \<lparr>mimeType = Some ''video/webm;codecs=vp9'', videoBitsPerSecond = Some 250000\<rparr>\<rparr>"
    by (simp add: nearly_done_def startRecording_def codecOptions_def)
  have t: "recordingTime nearly_done = 49 / 10"
    by (simp add: nearly_done_def)
  have f: "recordingTime (recordingTimer_fires (\<lambda>t. t + 1 / 10) 3 (startRecording None (\<lambda>t. True) SignToSpeech_init))
      = 3 / 10"
    by (simp add: numeral_3_eq_3 startRecording_def recordingTimer_callback_def
        MAX_RECORDING_DURATION_def Let_def)
  have g: "recordingTime nearly_done + 1 / 10 \<ge> MAX_RECORDING_DURATION"
    by (simp add: t MAX_RECORDING_DURATION_def)
  note th = recordingTime_bounded[of "\<lambda>t. t + 1 / 10" 3 "\<lambda>t. True" SignToSpeech_init]
  from th have b: "3 / 10 \<le> MAX_RECORDING_DURATION"
    by (simp add: f)
  from th[THEN conjunct2, THEN conjunct1, rule_format, of nearly_done] m g
  have c: "recordingTime (recordingTimer_callback (\<lambda>t. t + 1 / 10) nearly_done) = MAX_RECORDING_DURATION
        \<and> mediaRecorderRef (recordingTimer_callback (\<lambda>t. t + 1 / 10) nearly_done)
           = Some \<lparr>rec_state = Inactive,
               rec_options = \<lparr>mimeType = Some ''video/webm;codecs=vp9'', videoBitsPerSecond = Some 250000\<rparr>\<rparr>
        \<and> \<not> recordingTimerRef (recordingTimer_callback (\<lambda>t. t + 1 / 10) nearly_done)"
    by simp
  from f b m g c show ?thesis
    by (simp add: MAX_RECORDING_DURATION_def)
qed

section \<open>Properties of the speech-to-sign component\<close>

lemma sendTranscriptionChunk_requests:
  "snd (sendTranscriptionChunk api apiKeys p txt n s) =
     (if hasAPIKey apiKeys p \<and> trim txt \<noteq> []
      then [transcriptionChunkSummary txt p
              (if previousContextRef s = [] then None else Some (previousContextRef s))]
      else [])"
  by (simp add: sendTranscriptionChunk_def Let_def)

lemma sendTranscriptionChunk_summary:
  "sp_summary (fst (sendTranscriptionChunk api apiKeys p txt n s)) =
     (if hasAPIKey apiKeys p \<and> trim txt \<noteq> [] then
        (case api (transcriptionChunkSummary txt p
                     (if previousContextRef s = [] then None else Some (previousContextRef s))) of
           Inl err \<Rightarrow> sp_summary s
         | Inr result \<Rightarrow> if truthy (summary result) then the (summary result) else sp_summary s)
      else sp_summary s)"
  by (simp add: sendTranscriptionChunk_def Let_def split: sum.splits)

lemma sendTranscriptionChunk_context:
  "previousContextRef (fst (sendTranscriptionChunk api apiKeys p txt n s)) =
     (if hasAPIKey apiKeys p \<and> trim txt \<noteq> [] then
        (case api (transcriptionChunkSummary txt p
                     (if previousContextRef s = [] then None else Some (previousContextRef s))) of
           Inl err \<Rightarrow> previousContextRef s
         | Inr result \<Rightarrow>
             if truthy (summary result) then the (summary result) else previousContextRef s)
      else previousContextRef s)"
  by (simp add: sendTranscriptionChunk_def Let_def split: sum.splits)

lemma sendTranscriptionChunk_no_key:
  "\<not> hasAPIKey apiKeys p \<Longrightarrow> sendTranscriptionChunk api apiKeys p txt n s = (s, [])"
  by (simp add: sendTranscriptionChunk_def)

lemma dropWhile_id: "xs = [] \<or> \<not> P (hd xs) \<Longrightarrow> dropWhile P xs = xs"
  by (cases xs) auto

lemma trim_trim: "trim (trim s) = trim s"
proof -
  define a where "a = dropWhile isWhiteSpace s"
  define b where "b = dropWhile isWhiteSpace (rev a)"
  have t: "trim s = rev b" by (simp add: trim_def a_def b_def)
  have ha: "a = [] \<or> \<not> isWhiteSpace (hd a)"
    unfolding a_def by (metis hd_dropWhile)
  have hb: "b = [] \<or> \<not> isWhiteSpace (hd b)"
    unfolding b_def by (metis hd_dropWhile)
  have "rev a = takeWhile isWhiteSpace (rev a) @ b"
    by (simp add: b_def)
  then have "a = rev b @ rev (takeWhile isWhiteSpace (rev a))"
    by (metis rev_append rev_rev_ident)
  then have "rev b = [] \<or> hd (rev b) = hd a"
    by (metis hd_append2)
  with ha have "rev b = [] \<or> \<not> isWhiteSpace (hd (rev b))"
    by (metis \<open>a = rev b @ rev (takeWhile isWhiteSpace (rev a))\<close> append_is_Nil_conv)
  then have 1: "dropWhile isWhiteSpace (rev b) = rev b" by (rule dropWhile_id)
  have 2: "dropWhile isWhiteSpace b = b" using hb by (rule dropWhile_id)
  show ?thesis
    unfolding t by (simp add: trim_def 1 2)
qed

lemma foldl_onresult_final:
  "finalTranscriptRef (foldl onresult_step s rs) =
     finalTranscriptRef s @ concat (map (\<lambda>r. transcript r @ units_of '' '') (filter isFinal rs))"
  by (induction rs arbitrary: s) (simp_all add: onresult_step_def)

lemma recognition_onresult_final:
  "finalTranscriptRef (recognition_onresult i results s) =
     finalTranscriptRef s
       @ concat (map (\<lambda>r. transcript r @ units_of '' '') (filter isFinal (drop i results)))"
  by (simp add: recognition_onresult_def Let_def foldl_onresult_final)

lemma chunkInterval_callback_requests:
  "snd (chunkInterval_callback api apiKeys p s) =
     (if hasAPIKey apiKeys p \<and> trim (finalTranscriptRef s) \<noteq> []
          \<and> trim (finalTranscriptRef s) \<noteq> transcriptionChunkRef s
          \<and> trim (replace_first (trim (finalTranscriptRef s)) (transcriptionChunkRef s)) \<noteq> []
      then [transcriptionChunkSummary (trim (finalTranscriptRef s)) p
              (if previousContextRef s = [] then None else Some (previousContextRef s))]
      else [])"
  by (simp add: chunkInterval_callback_def Let_def case_prod_beta
      sendTranscriptionChunk_requests trim_trim)

lemma chunkInterval_callback_marks:
  "transcriptionChunkRef (fst (chunkInterval_callback api apiKeys p s)) =
     (if trim (finalTranscriptRef s) \<noteq> []
          \<and> trim (finalTranscriptRef s) \<noteq> transcriptionChunkRef s
          \<and> trim (replace_first (trim (finalTranscriptRef s)) (transcriptionChunkRef s)) \<noteq> []
      then trim (finalTranscriptRef s) else transcriptionChunkRef s)"
  by (simp add: chunkInterval_callback_def Let_def case_prod_beta)

lemma chunkInterval_callback_summary:
  "sp_summary (fst (chunkInterval_callback api apiKeys p s)) =
     (if hasAPIKey apiKeys p \<and> trim (finalTranscriptRef s) \<noteq> []
          \<and> trim (finalTranscriptRef s) \<noteq> transcriptionChunkRef s
          \<and> trim (replace_first (trim (finalTranscriptRef s)) (transcriptionChunkRef s)) \<noteq> []
      then (case api (transcriptionChunkSummary (trim (finalTranscriptRef s)) p
                     (if previousContextRef s = [] then None else Some (previousContextRef s))) of
              Inl err \<Rightarrow> sp_summary s
            | Inr result \<Rightarrow>
                if truthy (summary result) then the (summary result) else sp_summary s)
      else sp_summary s)"
  by (auto simp: chunkInterval_callback_def Let_def case_prod_beta
      sendTranscriptionChunk_summary trim_trim split: sum.splits)

lemma stopRecording_requests:
  "snd (SpeechToSign_stopRecording api apiKeys p s) =
     (if hasAPIKey apiKeys p \<and> trim (finalTranscriptRef s) \<noteq> []
          \<and> trim (finalTranscriptRef s) \<noteq> transcriptionChunkRef s
      then [transcriptionChunkSummary (trim (finalTranscriptRef s)) p
              (if previousContextRef s = [] then None else Some (previousContextRef s))]
      else [])"
  by (simp add: SpeechToSign_stopRecording_def Let_def sendTranscriptionChunk_requests trim_trim)

lemma trim_hello: "trim (units_of ''hello everyone '') = units_of ''hello everyone''"
  by (simp add: trim_def units_of_def isWhiteSpace_def)

lemma trim_hello2: "trim (units_of ''hello everyone'') = units_of ''hello everyone''"
  by (simp add: trim_def units_of_def isWhiteSpace_def)

lemma trim_hello3:
  "trim (units_of ''hello everyone good morning'') = units_of ''hello everyone good morning''"
  by (simp add: trim_def units_of_def isWhiteSpace_def)

lemma units_of_nonempty: "units_of (c # cs) \<noteq> []"
  by (simp add: units_of_def)

lemma replace_first_Nil: "replace_first s [] = s"
  by (cases s) simp_all

lemma example_keys_openai: "hasAPIKey example_keys ''openai''"
  by (simp add: hasAPIKey_def example_keys_def)

lemma remaining_keys_openai: "\<not> hasAPIKey remaining_keys ''openai''"
  by (simp add: hasAPIKey_def remaining_keys_def)

lemma heard_hello_eq:
  "heard_hello = SpeechToSign_init\<lparr>sp_isRecording := True,
      sp_transcription := units_of ''hello everyone'',
      finalTranscriptRef := units_of ''hello everyone '', chunkIntervalRef := True\<rparr>"
  by (simp add: heard_hello_def recognition_onresult_def SpeechToSign_startRecording_def
      example_keys_def hasAPIKey_def onresult_step_def SpeechToSign_init_def Let_def
      trim_def units_of_def isWhiteSpace_def)

lemma heard_hello_refs:
  "finalTranscriptRef heard_hello = units_of ''hello everyone ''"
  "transcriptionChunkRef heard_hello = []"
  "previousContextRef heard_hello = []"
  "sp_isRecording heard_hello"
  "sp_summary heard_hello = []"
  by (simp_all add: heard_hello_eq SpeechToSign_init_def)

lemma fired_without_key_eq:
  "fired_without_key =
     heard_hello\<lparr>chunkCounterRef := 1, transcriptionChunkRef := units_of ''hello everyone''\<rparr>"
  by (simp add: fired_without_key_def chunkInterval_callback_def heard_hello_refs trim_hello
      trim_hello2 replace_first_Nil units_of_nonempty sendTranscriptionChunk_no_key
      remaining_keys_openai Let_def)
     (simp add: heard_hello_eq SpeechToSign_init_def)

lemma fired_with_key_again_eq: "fired_with_key_again = fired_without_key"
  by (simp add: fired_with_key_again_def chunkInterval_callback_def fired_without_key_eq
      heard_hello_refs trim_hello Let_def)

text \<open>
  C1, as the code has it: a transcript chunk is posted to the transcription-chunk-summary
  service when the handler's provider has an active key and the chunk is not blank, and
  not otherwise. The request carries the transcript, the provider and, as previous
  context, the summary kept from the chunk before (null when there is none). When the
  answer carries a non-empty summary, that summary is what the component shows, and it
  is kept as the context of the next chunk; otherwise both stay as they were. Every
  request the handler makes goes to that service, none to the text-to-gloss service: no
  gloss is asked for or shown.
\<close>

theorem speech_to_sign_presents_summary:
  "snd (sendTranscriptionChunk api apiKeys p txt n s) =
     (if hasAPIKey apiKeys p \<and> trim txt \<noteq> []
      then [transcriptionChunkSummary txt p
              (if previousContextRef s = [] then None else Some (previousContextRef s))]
      else [])
   \<and> (\<forall>result. hasAPIKey apiKeys p \<and> trim txt \<noteq> []
         \<and> api (transcriptionChunkSummary txt p
                   (if previousContextRef s = [] then None else Some (previousContextRef s)))
             = Inr result
         \<and> truthy (summary result) \<longrightarrow>
       sp_summary (fst (sendTranscriptionChunk api apiKeys p txt n s)) = the (summary result)
       \<and> previousContextRef (fst (sendTranscriptionChunk api apiKeys p txt n s))
           = the (summary result))
   \<and> (\<not> (\<exists>result. hasAPIKey apiKeys p \<and> trim txt \<noteq> []
         \<and> api (transcriptionChunkSummary txt p
                   (if previousContextRef s = [] then None else Some (previousContextRef s)))
             = Inr result
         \<and> truthy (summary result)) \<longrightarrow>
       sp_summary (fst (sendTranscriptionChunk api apiKeys p txt n s)) = sp_summary s
       \<and> previousContextRef (fst (sendTranscriptionChunk api apiKeys p txt n s))
           = previousContextRef s)
   \<and> (\<forall>r \<in> set (snd (sendTranscriptionChunk api apiKeys p txt n s)).
         url r = ''/api/transcription-chunk-summary'' \<and> url r \<noteq> url (textToGloss txt p)
         \<and> payload r =
             [(''transcription'', TextUnits txt), (''provider'', Text p),
              (''previous_context'',
               (if previousContextRef s = [] then Null else TextUnits (previousContextRef s)))])"
  by (auto simp: sendTranscriptionChunk_requests sendTranscriptionChunk_summary
      sendTranscriptionChunk_context transcriptionChunkSummary_def textToGloss_def
      split: sum.splits)

theorem speech_to_sign_presents_summary_witness:
  "hasAPIKey example_keys ''openai'' \<and> trim (units_of ''hello everyone'') \<noteq> []
   \<and> summary_api (transcriptionChunkSummary (units_of ''hello everyone'') ''openai'' None)
       = Inr \<lparr>summary = Some (units_of ''A greeting to everyone.'')\<rparr>
   \<and> snd (sendTranscriptionChunk summary_api example_keys ''openai''
             (units_of ''hello everyone'') 1 heard_hello)
       = [transcriptionChunkSummary (units_of ''hello everyone'') ''openai'' None]
   \<and> sp_summary (fst (sendTranscriptionChunk summary_api example_keys ''openai''
                         (units_of ''hello everyone'') 1 heard_hello))
       = units_of ''A greeting to everyone.''
   \<and> previousContextRef (fst (sendTranscriptionChunk summary_api example_keys ''openai''
                         (units_of ''hello everyone'') 1 heard_hello))
       = units_of ''A greeting to everyone.''
   \<and> snd (sendTranscriptionChunk summary_api example_keys ''openai''
             (units_of ''hello everyone good morning'') 2
             (fst (sendTranscriptionChunk summary_api example_keys ''openai''
                     (units_of ''hello everyone'') 1 heard_hello)))
       = [\<lparr>url = ''/api/transcription-chunk-summary'',
           payload = [(''transcription'', TextUnits (units_of ''hello everyone good morning'')),
                      (''provider'', Text ''openai''),
                      (''previous_context'', TextUnits (units_of ''A greeting to everyone.''))]\<rparr>]"
proof -
  define s1 where "s1 = fst (sendTranscriptionChunk summary_api example_keys ''openai''
                     (units_of ''hello everyone'') 1 heard_hello)"
  note c = heard_hello_refs(3)
  note k = example_keys_openai
  have t: "trim (units_of ''hello everyone'') \<noteq> []"
    by (simp add: trim_hello2 units_of_nonempty)
  have t3: "trim (units_of ''hello everyone good morning'') \<noteq> []"
    by (simp add: trim_hello3 units_of_nonempty)
  have a: "summary_api (transcriptionChunkSummary (units_of ''hello everyone'') ''openai'' None)
       = Inr \<lparr>summary = Some (units_of ''A greeting to everyone.'')\<rparr>"
    by (simp add: summary_api_def)
  note th = speech_to_sign_presents_summary[of summary_api example_keys "''openai''"
      "units_of ''hello everyone''" 1 heard_hello]
  from th[THEN conjunct1] k t
  have r: "snd (sendTranscriptionChunk summary_api example_keys ''openai''
             (units_of ''hello everyone'') 1 heard_hello)
       = [transcriptionChunkSummary (units_of ''hello everyone'') ''openai'' None]"
    by (simp add: c)
  from th[THEN conjunct2, THEN conjunct1, rule_format,
      of "\<lparr>summary = Some (units_of ''A greeting to everyone.'')\<rparr>"] k t a
  have u: "sp_summary s1 = units_of ''A greeting to everyone.''
         \<and> previousContextRef s1 = units_of ''A greeting to everyone.''"
    by (simp add: c units_of_nonempty s1_def)
  note th2 = speech_to_sign_presents_summary[of summary_api example_keys "''openai''"
      "units_of ''hello everyone good morning''" 2 s1]
  from th2[THEN conjunct1] k t3 u
  have r2: "snd (sendTranscriptionChunk summary_api example_keys ''openai''
             (units_of ''hello everyone good morning'') 2 s1)
       = [\<lparr>url = ''/api/transcription-chunk-summary'',
           payload = [(''transcription'', TextUnits (units_of ''hello everyone good morning'')),
                      (''provider'', Text ''openai''),
                      (''previous_context'', TextUnits (units_of ''A greeting to everyone.''))]\<rparr>]"
    by (simp add: units_of_nonempty transcriptionChunkSummary_def)
  from k t a r u r2 show ?thesis
    unfolding s1_def by simp
qed

text \<open>
  C1 as stated fails: for the recognised speech \<open>hello everyone\<close> the interval's
  callback makes one request, to the summary service; the text-to-gloss request is not
  made, and what is shown is the summary.
\<close>

theorem speech_to_sign_gloss_counterexample:
  "snd (chunkInterval_callback summary_api example_keys ''openai'' heard_hello)
       = [transcriptionChunkSummary (units_of ''hello everyone'') ''openai'' None]
   \<and> textToGloss (units_of ''hello everyone'') ''openai''
        \<notin> set (snd (chunkInterval_callback summary_api example_keys ''openai'' heard_hello))
   \<and> sp_summary (fst (chunkInterval_callback summary_api example_keys ''openai'' heard_hello))
       = units_of ''A greeting to everyone.''"
  by (simp add: chunkInterval_callback_requests chunkInterval_callback_summary
      example_keys_openai heard_hello_refs trim_hello replace_first_Nil trim_hello2
      units_of_nonempty summary_api_def transcriptionChunkSummary_def textToGloss_def)

text \<open>
  C3: a run on which the code departs from it. Recording starts with a key for openai,
  and \<open>hello everyone\<close> is recognised and finalized. The key is deleted in the settings:
  the interval's callback, now that of a render without the key, fires, sends nothing,
  and yet records the transcript as the one sent with the previous chunk. The key is
  saved again: the interval's callback finds nothing new and sends nothing, and
  stopRecording finds nothing that remains. The finalized transcript was never sent, and
  no final chunk is sent when recording is stopped.
\<close>

theorem transcript_marked_sent_but_never_sent:
  "hasAPIKey example_keys ''openai''
   \<and> sp_isRecording heard_hello
   \<and> trim (finalTranscriptRef heard_hello) = units_of ''hello everyone''
   \<and> transcriptionChunkRef heard_hello = []
   \<and> \<not> hasAPIKey remaining_keys ''openai''
   \<and> snd (chunkInterval_callback summary_api remaining_keys ''openai'' heard_hello) = []
   \<and> transcriptionChunkRef fired_without_key = units_of ''hello everyone''
   \<and> snd (chunkInterval_callback summary_api example_keys ''openai'' fired_without_key) = []
   \<and> trim (finalTranscriptRef fired_with_key_again) = units_of ''hello everyone''
   \<and> snd (SpeechToSign_stopRecording summary_api example_keys ''openai'' fired_with_key_again) = []"
  by (simp add: example_keys_openai heard_hello_refs trim_hello chunkInterval_callback_requests
      stopRecording_requests fired_with_key_again_eq fired_without_key_eq remaining_keys_openai)

section \<open>Properties of compressVideo\<close>

lemma drawFrame_Some_finite:
  assumes "drawFrame fp d t acts = Some y" shows "times_num fp d \<noteq> Infinity"
  by (rule drawFrame.raw_induct[where P = "\<lambda>fp d t acts y. times_num fp d \<noteq> Infinity", OF _ assms])
     (auto split: if_splits)

lemma drawFrame_Infinity:
  assumes "times_num fp d = Infinity" shows "drawFrame fp d t acts = None"
  using drawFrame_Some_finite[of fp d t acts] assms by (cases "drawFrame fp d t acts") auto

lemma ge_iff_count: "(ms \<le> of_nat (frameInterval * k)) \<longleftrightarrow> frame_count ms \<le> k"
proof -
  have "(ms \<le> of_nat (frameInterval * k)) \<longleftrightarrow> ms / 42 \<le> of_nat k"
    by (simp add: frameInterval_def field_simps)
  also have "\<dots> \<longleftrightarrow> \<lceil>ms / 42\<rceil> \<le> int k"
    by (simp add: ceiling_le_iff)
  also have "\<dots> \<longleftrightarrow> nat \<lceil>ms / 42\<rceil> \<le> k"
    by linarith
  finally show ?thesis by (simp add: frame_count_def frameInterval_def)
qed


lemma ge_num_frame:
  assumes "times_num fp d = Finite ms"
  shows "ge_num (frameInterval * k) (times_num fp d) = (frame_count ms \<le> k)"
  by (simp only: assms ge_num.simps ge_iff_count)

lemma lt_num_frame:
  assumes "times_num fp d = Finite ms"
  shows "lt_num (frameInterval * k + frameInterval) (times_num fp d) = (Suc k < frame_count ms)"
proof -
  have "frameInterval * k + frameInterval = frameInterval * Suc k" by simp
  then have "lt_num (frameInterval * k + frameInterval) (times_num fp d)
      = (\<not> ms \<le> of_nat (frameInterval * Suc k))"
    by (simp only: assms lt_num.simps not_le)
  then show ?thesis by (simp only: ge_iff_count not_le)
qed

lemma drawFrame_Finite:
  assumes tm: "times_num fp d = Finite ms"
  shows "drawFrame fp d (frameInterval * k) acts =
     Some (acts @ concat (map (frame fp) [k..<frame_count ms]) @ [RecorderStop])"
proof (induction "frame_count ms - k" arbitrary: k acts)
  case 0
  then have "frame_count ms \<le> k" by simp
  then show ?case
    by (subst drawFrame.simps) (simp only: ge_num_frame[OF tm], simp)
next
  case (Suc n)
  then have lt: "k < frame_count ms" by simp
  have next_eq: "frameInterval * k + frameInterval = frameInterval * Suc k" by simp
  have up: "[k..<frame_count ms] = k # [Suc k..<frame_count ms]"
    using lt by (simp add: upt_conv_Cons)
  show ?case
  proof (cases "Suc k < frame_count ms")
    case True
    have "n = frame_count ms - Suc k" using Suc(2) by simp
    from Suc(1)[OF this] have
      "drawFrame fp d (frameInterval * k + frameInterval) (acts @ frame fp k) =
         Some ((acts @ frame fp k) @ concat (map (frame fp) [Suc k..<frame_count ms]) @ [RecorderStop])"
      by (simp only: next_eq)
    with True lt show ?thesis
      by (subst drawFrame.simps)
         (simp only: ge_num_frame[OF tm] lt_num_frame[OF tm], simp add: up frame_def)
  next
    case False
    with lt have "frame_count ms = Suc k" by simp
    with False lt show ?thesis
      by (subst drawFrame.simps)
         (simp only: ge_num_frame[OF tm] lt_num_frame[OF tm], simp add: frame_def)
  qed
qed

lemma compressVideo_actions_Finite:
  assumes "times_num fp (duration_of video_duration maxDuration) = Finite ms"
  shows "compressVideo_actions fp video_duration maxDuration =
     Some (concat (map (frame fp) [0..<frame_count ms]) @ [RecorderStop])"
  using drawFrame_Finite[OF assms, of 0 "[]"] by (simp add: compressVideo_actions_def)

lemma compressVideo_actions_Infinity:
  assumes "times_num fp (duration_of video_duration maxDuration) = Infinity"
  shows "compressVideo_actions fp video_duration maxDuration = None"
  by (simp add: compressVideo_actions_def drawFrame_Infinity[OF assms])

lemma foldl_ondataavailable:
  "foldl recorder_ondataavailable chunks evs = chunks @ filter (\<lambda>b. blob_size b > 0) evs"
  by (induction evs arbitrary: chunks) (simp_all add: recorder_ondataavailable_def)


lemma frame_eq:
  "frame fp = (\<lambda>k. [Seek (over_1000 fp (42 * k)), DrawImage 0 0 1280 720])"
  by (rule ext) (simp add: frame_def frameInterval_def targetWidth_def targetHeight_def)

text \<open>
  When the duration to process, times 1000, is the finite number \<open>ms\<close> and the recorder
  raises no error, compressVideo resolves. The canvas is 1280 by 720, its capture stream
  runs at 24 frames per second, and the recorder is given 250000 bits per second. The
  loop seeks to 0, 42, 84, ... milliseconds, one step of 42 for each frame below \<open>ms\<close>,
  drawing each frame on the whole canvas, and then stops the recorder. The promise
  resolves with one video/webm blob: the recorded chunks that are not empty,
  concatenated in the order they arrived.
\<close>

lemma compressVideo_Finite:
  assumes "times_num fp (duration_of video_duration maxDuration) = Finite ms"
  shows "compressVideo fp video_duration maxDuration None dataEvents =
     Some (Resolved
       \<lparr>canvas_width = 1280, canvas_height = 720, captureStream_frameRate = 24,
        recorder_mimeType = ''video/webm;codecs=vp9'', recorder_videoBitsPerSecond = 250000,
        actions = concat (map (\<lambda>k. [Seek (over_1000 fp (42 * k)), DrawImage 0 0 1280 720])
                            [0..<frame_count ms]) @ [RecorderStop],
        resolved = \<lparr>blob_type = ''video/webm'',
                    blob_bytes = concat (map blob_bytes (filter (\<lambda>b. blob_size b > 0) dataEvents))\<rparr>\<rparr>)"
  by (simp add: compressVideo_def compressVideo_actions_Finite[OF assms] foldl_ondataavailable
      recorder_onstop_def new_Blob_def targetWidth_def targetHeight_def frame_eq)

lemma compressVideo_recorder_error:
  "compressVideo fp video_duration maxDuration (Some e) dataEvents =
     Some (Rejected (''Video compression failed: '' @ e))"
  by (simp add: compressVideo_def recorder_onerror_def)



text \<open>
  C4: an input on which the code departs from it. For a source whose duration is
  Infinity (a recording without a length in its header) and a null maxDuration, which is
  how the upload handler calls compressVideo, the duration to process is Infinity, and
  \<open>currentTime >= duration * 1000\<close> never holds, however the doubles round: the loop does
  not end, the recorder is never stopped, and the promise is neither resolved nor
  rejected.
\<close>

theorem compressVideo_never_settles:
  "duration_of Infinity None = Infinity
   \<and> compressVideo_actions fp Infinity None = None
   \<and> compressVideo fp Infinity None None dataEvents = None"
proof -
  have d: "duration_of Infinity None = Infinity"
    by (simp add: duration_of_def)
  then have "times_num fp (duration_of Infinity None) = Infinity"
    by simp
  from compressVideo_actions_Infinity[OF this] d show ?thesis
    by (simp add: compressVideo_def)
qed

theorem compressVideo_never_settles_witness:
  "compressVideo exact_arith Infinity None None two_chunks = None"
  using compressVideo_never_settles[of exact_arith two_chunks] by simp



section \<open>Properties of the response interceptor\<close>

text \<open>
  C6: a response with status 401 removes aria_token and aria_user from localStorage
  (every other item stays), sets the location to /login, and the rejection, carrying the
  response, goes on to the caller. A response with any other status leaves the browser
  as it was, the stored token and user included; so does an error without a response.
\<close>

theorem unauthorized_clears_session:
  "(status r = 401 \<longrightarrow>
      localStorage (fst (api_receive r b)) ''aria_token'' = None
      \<and> localStorage (fst (api_receive r b)) ''aria_user'' = None
      \<and> (\<forall>k. k \<noteq> ''aria_token'' \<and> k \<noteq> ''aria_user'' \<longrightarrow>
            localStorage (fst (api_receive r b)) k = localStorage b k)
      \<and> location_href (fst (api_receive r b)) = ''/login''
      \<and> snd (api_receive r b) = Rejection \<lparr>error_response = Some r\<rparr>)
   \<and> (status r \<noteq> 401 \<longrightarrow>
      fst (api_receive r b) = b
      \<and> localStorage (fst (api_receive r b)) ''aria_token'' = localStorage b ''aria_token''
      \<and> localStorage (fst (api_receive r b)) ''aria_user'' = localStorage b ''aria_user''
      \<and> snd (api_receive r b) =
           (if validateStatus (status r) then Fulfilled r
            else Rejection \<lparr>error_response = Some r\<rparr>))
   \<and> interceptor_rejected \<lparr>error_response = None\<rparr> b = (b, Rejection \<lparr>error_response = None\<rparr>)"
  by (simp add: api_receive_def interceptor_rejected_def interceptor_fulfilled_def
      validateStatus_def removeItem_def)

theorem unauthorized_clears_session_witness:
  "localStorage (fst (api_receive \<lparr>status = 401, response_data = ''{}''\<rparr> signed_in)) ''aria_token'' = None
   \<and> localStorage (fst (api_receive \<lparr>status = 401, response_data = ''{}''\<rparr> signed_in)) ''aria_user'' = None
   \<and> localStorage (fst (api_receive \<lparr>status = 401, response_data = ''{}''\<rparr> signed_in)) ''theme'' = Some ''dark''
   \<and> location_href (fst (api_receive \<lparr>status = 401, response_data = ''{}''\<rparr> signed_in)) = ''/login''
   \<and> localStorage (fst (api_receive \<lparr>status = 403, response_data = ''{}''\<rparr> signed_in)) ''aria_token''
        = Some ''eyJhbGciOi''
   \<and> location_href (fst (api_receive \<lparr>status = 403, response_data = ''{}''\<rparr> signed_in)) = ''/dashboard''"
proof -
  have t: "localStorage signed_in ''theme'' = Some ''dark''"
    and k: "localStorage signed_in ''aria_token'' = Some ''eyJhbGciOi''"
    and h: "location_href signed_in = ''/dashboard''"
    by (simp_all add: signed_in_def)
  note a = unauthorized_clears_session[of "\<lparr>status = 401, response_data = ''{}''\<rparr>" signed_in,
      THEN conjunct1, rule_format]
  note b = unauthorized_clears_session[of "\<lparr>status = 403, response_data = ''{}''\<rparr>" signed_in,
      THEN conjunct2, THEN conjunct1, rule_format]
  have a': "localStorage (fst (api_receive \<lparr>status = 401, response_data = ''{}''\<rparr> signed_in)) ''aria_token'' = None
   \<and> localStorage (fst (api_receive \<lparr>status = 401, response_data = ''{}''\<rparr> signed_in)) ''aria_user'' = None
   \<and> localStorage (fst (api_receive \<lparr>status = 401, response_data = ''{}''\<rparr> signed_in)) ''theme''
        = localStorage signed_in ''theme''
   \<and> location_href (fst (api_receive \<lparr>status = 401, response_data = ''{}''\<rparr> signed_in)) = ''/login''"
    using a by simp
  have b': "fst (api_receive \<lparr>status = 403, response_data = ''{}''\<rparr> signed_in) = signed_in"
    using b by simp
  from a' b' t k h show ?thesis by simp
qed

section \<open>Properties of the History view\<close>

lemma badges_of_gloss:
  "concat (map badges
      (map (\<lambda>word. VElement ''span'' ''bg-indigo-100 text-indigo-800 px-3 py-1 rounded''
                      [VText word]) gloss)) = gloss"
  by (induction gloss) simp_all

lemma badges_input_section: "concat (map badges (input_section entry)) = []"
  by (simp add: input_section_def)

lemma badges_output_section: "concat (map badges (output_section entry)) = []"
  by (simp add: output_section_def)

lemma badges_gloss_section:
  "concat (map badges (gloss_section entry)) = (case output_gloss entry of None \<Rightarrow> [] | Some g \<Rightarrow> g)"
  using badges_of_gloss
  by (simp add: gloss_section_def comp_def split: option.splits)

text \<open>
  C7: for an entry whose output_gloss is a non-empty list, the gloss section holds one
  badge for each token, and the badges of the entry, read in document order, are the
  tokens of the list in their order; for an entry whose output_gloss is null or absent
  there is no gloss section and no badge.
\<close>

theorem gloss_badges:
  "(\<forall>gloss. output_gloss entry = Some gloss \<and> gloss \<noteq> [] \<longrightarrow>
       concat (map badges (entry_sections entry)) = gloss
       \<and> gloss_section entry =
           [VElement ''div'' ''mb-3''
              [VElement ''strong'' [] [VText ''Gloss:''],
               VElement ''div'' ''flex flex-wrap gap-2 mt-2''
                 (map (\<lambda>word. VElement ''span'' ''bg-indigo-100 text-indigo-800 px-3 py-1 rounded''
                                 [VText word]) gloss)]])
   \<and> (output_gloss entry = None \<longrightarrow>
       gloss_section entry = [] \<and> concat (map badges (entry_sections entry)) = [])"
  by (simp add: entry_sections_def badges_input_section badges_output_section
      badges_gloss_section) (simp add: gloss_section_def)

theorem gloss_badges_witness:
  "output_gloss example_entry = Some [''HELLO'', ''HOW'', ''YOU'']
   \<and> concat (map badges (entry_sections example_entry)) = [''HELLO'', ''HOW'', ''YOU'']
   \<and> gloss_section (example_entry\<lparr>output_gloss := None\<rparr>) = []"
proof -
  have g: "output_gloss example_entry = Some [''HELLO'', ''HOW'', ''YOU'']"
    by (simp add: example_entry_def)
  from gloss_badges[of example_entry, THEN conjunct1, rule_format, of "[''HELLO'', ''HOW'', ''YOU'']"] g
  have 1: "concat (map badges (entry_sections example_entry)) = [''HELLO'', ''HOW'', ''YOU'']"
    by simp
  from gloss_badges[of "example_entry\<lparr>output_gloss := None\<rparr>", THEN conjunct2]
  have 2: "gloss_section (example_entry\<lparr>output_gloss := None\<rparr>) = []"
    by simp
  from g 1 2 show ?thesis by simp
qed


end
